theory Spec2Isabelle
  imports Main "HOL-Library.Word"
begin

section \<open>ResourceCacheDevice: data model\<close>

text \<open>
  A shallow embedding of \<^verbatim>\<open>ResourceCacheDevice.cpp\<close>. The device is a table of handle
  slots over a number of collaborators (the resource manager, the resource cache, the
  mounted parent devices, the HTTP client, the game-init store). The collaborators are
  not part of the file: they are parameters of the embedding (the record \<open>world\<close>).
  A collaborator with state of its own answers as a function of the history of calls
  made so far, and every call the device makes is appended to that history (the field
  \<open>calls\<close>), so that "no call was made" and "exactly one call was made" are statements
  about \<open>calls\<close>.

  \<open>THandle\<close> is \<^verbatim>\<open>uintptr_t\<close>, \<open>size_t\<close> and \<^verbatim>\<open>uint64_t\<close> are 64-bit words.
  Calls to \<^verbatim>\<open>trace\<close>, the profiler macros and the clock only produce diagnostics and are
  left out, as is the text of the diagnostic stored under \<^verbatim>\<open>rcd:error\<close>.
\<close>

type_synonym THandle = "64 word"
type_synonym size_t = "64 word"
type_synonym uint64_t = "64 word"
type_synonym uint32_t = "32 word"
type_synonym Device = nat
type_synonym HttpRequestPtr = nat
type_synonym strmap = "string \<Rightarrow> string option"

text \<open>
  Modelled from the spec: the constant \<^verbatim>\<open>InvalidHandle\<close> of the device interface, whose
  header is not among the sources. It is the all-ones handle, the value \<^verbatim>\<open>-1\<close> that
  \<^verbatim>\<open>FindFirst\<close> returns as a \<open>THandle\<close>.
\<close>

definition InvalidHandle :: THandle where
  "InvalidHandle = - 1"

datatype Status = StatusEmpty | StatusNotFetched | StatusFetching | StatusFetched | StatusError

record Entry =
  basename :: string
  resourceName :: string
  referenceHash :: string
  remoteUrl :: string
  entry_size :: size_t
  extData :: strmap

record CacheEntry =
  GetLocalPath :: string
  GetMetaData :: strmap

record HandleData =
  status :: Status
  entry :: Entry
  bulkHandle :: bool
  parentHandle :: THandle
  parentDevice :: "Device option"
  bulkPtr :: uint64_t
  downloadProgress :: size_t
  downloadSize :: size_t
  getRequest :: "HttpRequestPtr option"
  metaData :: strmap

text \<open>What the code can do other than return: a C++ exception, a fatal error, or
  undefined behaviour (a null reference, an index outside the handle table).\<close>

datatype fault = StdOutOfRange | FatalError | NullDeref | BadHandle

text \<open>The outcome of a call: it returns, it faults, or the calling thread stays
  suspended on the slot's condition variable.\<close>

datatype 'a result = Ret 'a | Throw fault | Blocked

text \<open>The calls the device makes to its collaborators.\<close>

datatype call =
    CacheGetEntryFor string
  | CacheAddEntry string strmap
  | DevOpen Device string bool
  | DevOpenBulk Device string
  | DevRead Device THandle size_t
  | DevReadBulk Device THandle uint64_t size_t
  | DevSeek Device THandle "64 word" int
  | DevClose Device THandle
  | DevCloseBulk Device THandle
  | DevGetLength Device THandle
  | DevGetLengthPath Device string
  | HttpDoFileGetRequest string "Device option" string int "string option"
  | HttpSetRequestWeight HttpRequestPtr int
  | InitSetData string
  | OnCacheDownloadStatus string size_t size_t

text \<open>What happens while a blocking caller is suspended in \<^verbatim>\<open>lockVar.wait\<close>: the
  transport runs the completion callback of the slot's request (with its \<^verbatim>\<open>result\<close> and
  \<^verbatim>\<open>outSize\<close>) and notifies; or the caller wakes up without the callback having run;
  or it is never woken.\<close>

datatype wait_outcome = Signalled bool size_t | Woken | Never

record world =
  GetResource :: "string \<Rightarrow> (string \<Rightarrow> Entry option) option"
  vfs_GetDevice :: "string \<Rightarrow> Device option"
  init_GetData :: "string \<Rightarrow> string option"
  cache_GetEntryFor :: "call list \<Rightarrow> string \<Rightarrow> CacheEntry option"
  dev_Open :: "call list \<Rightarrow> Device \<Rightarrow> string \<Rightarrow> bool \<Rightarrow> THandle"
  dev_OpenBulk :: "call list \<Rightarrow> Device \<Rightarrow> string \<Rightarrow> uint64_t \<Rightarrow> THandle \<times> uint64_t"
  dev_Read :: "call list \<Rightarrow> Device \<Rightarrow> THandle \<Rightarrow> size_t \<Rightarrow> size_t"
  dev_ReadBulk :: "call list \<Rightarrow> Device \<Rightarrow> THandle \<Rightarrow> uint64_t \<Rightarrow> size_t \<Rightarrow> size_t"
  dev_Seek :: "call list \<Rightarrow> Device \<Rightarrow> THandle \<Rightarrow> 64 word \<Rightarrow> int \<Rightarrow> size_t"
  dev_Close :: "call list \<Rightarrow> Device \<Rightarrow> THandle \<Rightarrow> bool"
  dev_CloseBulk :: "call list \<Rightarrow> Device \<Rightarrow> THandle \<Rightarrow> bool"
  dev_GetLength :: "call list \<Rightarrow> Device \<Rightarrow> THandle \<Rightarrow> size_t"
  dev_GetLengthPath :: "call list \<Rightarrow> Device \<Rightarrow> string \<Rightarrow> size_t"
  http_DoFileGetRequest :: "call list \<Rightarrow> string \<Rightarrow> string \<Rightarrow> HttpRequestPtr option"
  lockVar_wait :: "call list \<Rightarrow> nat \<Rightarrow> wait_outcome"

text \<open>The device: its fields, the process-wide set of downloaded hashes, and the
  history of calls.\<close>

record state =
  m_handles :: "HandleData list"
  m_blocking :: bool
  m_cachePath :: string
  m_pathPrefix :: string
  g_downloadedSet :: "string set"
  calls :: "call list"

definition logc :: "call \<Rightarrow> state \<Rightarrow> state" where
  "logc c s = s\<lparr>calls := calls s @ [c]\<rparr>"

definition upd_handle :: "nat \<Rightarrow> (HandleData \<Rightarrow> HandleData) \<Rightarrow> state \<Rightarrow> state" where
  "upd_handle i f s = s\<lparr>m_handles := (m_handles s)[i := f (m_handles s ! i)]\<rparr>"

section \<open>Strings\<close>

text \<open>\<^verbatim>\<open>std::string::find_first_of\<close> and \<^verbatim>\<open>find_last_of\<close> of a character: \<open>None\<close> is
  \<^verbatim>\<open>npos\<close>.\<close>

fun find_first_of :: "char \<Rightarrow> string \<Rightarrow> nat option" where
  "find_first_of c [] = None"
| "find_first_of c (x # xs) = (if x = c then Some 0 else map_option Suc (find_first_of c xs))"

definition find_last_of :: "char \<Rightarrow> string \<Rightarrow> nat option" where
  "find_last_of c s = map_option (\<lambda>k. length s - 1 - k) (find_first_of c (rev s))"

text \<open>\<^verbatim>\<open>s.find(pat) != npos\<close>.\<close>

fun str_contains :: "string \<Rightarrow> string \<Rightarrow> bool" where
  "str_contains [] pat = (pat = [])"
| "str_contains (c # cs) pat = (take (length pat) (c # cs) = pat \<or> str_contains cs pat)"

section \<open>Resolving a file name\<close>

text \<open>
  \<^verbatim>\<open>GetEntryForFileName\<close>. \<^verbatim>\<open>substr\<close> throws \<^verbatim>\<open>std::out_of_range\<close> when the prefix is longer
  than the name. Without a slash \<^verbatim>\<open>slashOffset\<close> is \<^verbatim>\<open>-1\<close>: the resource name is the whole
  relative name (a count of \<^verbatim>\<open>npos\<close>) and so is the item name (from position 0). The
  entry list component of a resource is the function \<open>GetResource\<close> returns.
\<close>

definition GetEntryForFileName :: "world \<Rightarrow> state \<Rightarrow> string \<Rightarrow> fault + Entry option" where
  "GetEntryForFileName w s fileName =
    (if length (m_pathPrefix s) > length fileName then Inl StdOutOfRange
     else
       let relativeName = drop (length (m_pathPrefix s)) fileName;
           slashOffset = find_first_of CHR ''/'' relativeName;
           resourceName = (case slashOffset of None \<Rightarrow> relativeName | Some k \<Rightarrow> take k relativeName);
           itemName = (case slashOffset of None \<Rightarrow> relativeName | Some k \<Rightarrow> drop (k + 1) relativeName)
       in case GetResource w resourceName of
            None \<Rightarrow> Inr None
          | Some entryList \<Rightarrow> Inr (entryList itemName))"

section \<open>The handle table\<close>

text \<open>\<^verbatim>\<open>AllocateHandle\<close>: the first slot that is \<open>StatusEmpty\<close>, reserved by setting it to
  \<open>StatusError\<close>; a fatal error when there is none.\<close>

fun first_empty :: "HandleData list \<Rightarrow> nat \<Rightarrow> nat option" where
  "first_empty [] i = None"
| "first_empty (h # hs) i = (if status h = StatusEmpty then Some i else first_empty hs (Suc i))"

definition AllocateHandle :: "state \<Rightarrow> nat result \<times> state" where
  "AllocateHandle s =
    (case first_empty (m_handles s) 0 of
       None \<Rightarrow> (Throw FatalError, s)
     | Some i \<Rightarrow> (Ret i, upd_handle i (\<lambda>h. h\<lparr>status := StatusError\<rparr>) s))"

section \<open>Opening\<close>

text \<open>
  \<^verbatim>\<open>OpenInternal\<close>; \<open>bulk\<close> is \<^verbatim>\<open>bulkPtr != nullptr\<close>. The caller's cell is never written
  here: the parent's \<^verbatim>\<open>OpenBulk\<close> gets the address of the slot's own \<open>bulkPtr\<close>.
  \<open>open_parent\<close> is the conditional expression that opens the file on the parent device
  (it occurs again in the completion callback), \<open>open_cached\<close> the block run when the
  cache has an entry for the hash.
\<close>

definition open_parent :: "world \<Rightarrow> nat \<Rightarrow> bool \<Rightarrow> Device \<Rightarrow> string \<Rightarrow> state \<Rightarrow> state" where
  "open_parent w i bulk d path s =
    (if bulk
     then (let r = dev_OpenBulk w (calls s) d path (bulkPtr (m_handles s ! i))
           in upd_handle i (\<lambda>h. h\<lparr>parentHandle := fst r, bulkPtr := snd r\<rparr>)
                (logc (DevOpenBulk d path) s))
     else upd_handle i (\<lambda>h. h\<lparr>parentHandle := dev_Open w (calls s) d path True\<rparr>)
            (logc (DevOpen d path True) s))"

definition open_cached :: "world \<Rightarrow> nat \<Rightarrow> bool \<Rightarrow> CacheEntry \<Rightarrow> state \<Rightarrow> state" where
  "open_cached w i bulk cacheEntry s =
    (let localPath = GetLocalPath cacheEntry;
         s1 = upd_handle i (\<lambda>h. h\<lparr>parentDevice := vfs_GetDevice w localPath\<rparr>) s
     in case vfs_GetDevice w localPath of
          None \<Rightarrow> s1
        | Some d \<Rightarrow>
           (let s2 = open_parent w i bulk d localPath s1
            in if parentHandle (m_handles s2 ! i) \<noteq> InvalidHandle
               then upd_handle i (\<lambda>h. h\<lparr>status := StatusFetched, metaData := GetMetaData cacheEntry\<rparr>) s2
               else s2))"

definition OpenInternal :: "world \<Rightarrow> string \<Rightarrow> bool \<Rightarrow> state \<Rightarrow> THandle result \<times> state" where
  "OpenInternal w fileName bulk s =
    (case GetEntryForFileName w s fileName of
       Inl f \<Rightarrow> (Throw f, s)
     | Inr None \<Rightarrow> (Ret InvalidHandle, s)
     | Inr (Some e) \<Rightarrow>
        (case AllocateHandle s of
           (Ret i, s1) \<Rightarrow>
             (let s2 = upd_handle i (\<lambda>h. h\<lparr>bulkHandle := bulk, entry := e, status := StatusNotFetched\<rparr>) s1;
                  cacheEntry = cache_GetEntryFor w (calls s2) (referenceHash e);
                  s3 = logc (CacheGetEntryFor (referenceHash e)) s2
              in (Ret (of_nat i),
                  (case cacheEntry of None \<Rightarrow> s3 | Some ce \<Rightarrow> open_cached w i bulk ce s3)))
         | (Throw f, s1) \<Rightarrow> (Throw f, s1)
         | (Blocked, s1) \<Rightarrow> (Blocked, s1)))"

definition Open :: "world \<Rightarrow> string \<Rightarrow> bool \<Rightarrow> state \<Rightarrow> THandle result \<times> state" where
  "Open w fileName readOnly s =
    (if \<not> readOnly then (Ret InvalidHandle, s) else OpenInternal w fileName False s)"

text \<open>\<^verbatim>\<open>OpenBulk\<close>: the caller's cell \<^verbatim>\<open>*ptr\<close> goes in with its old value and comes out
  as the third component.\<close>

definition OpenBulk :: "world \<Rightarrow> string \<Rightarrow> uint64_t \<Rightarrow> state \<Rightarrow> THandle result \<times> state \<times> uint64_t" where
  "OpenBulk w fileName ptr s =
    (let ptr1 = 0;
         r = OpenInternal w fileName True s
     in (fst r, snd r, ptr1))"

section \<open>Fetching\<close>

text \<open>\<^verbatim>\<open>GetWeightForFileName\<close>. \<^verbatim>\<open>substr(npos)\<close> throws when the name has no dot.\<close>

definition GetWeightForFileName :: "string \<Rightarrow> fault + int" where
  "GetWeightForFileName fileName =
    (case find_last_of CHR ''.'' fileName of
       None \<Rightarrow> Inl StdOutOfRange
     | Some k \<Rightarrow>
        (let ext = drop k fileName
         in Inr (if ext = ''.ybn'' \<or> ext = ''.ymap'' \<or> ext = ''.ytyp'' then 255
                 else if ext = ''.ydd'' \<or> ext = ''.ydr'' then 128
                 else if ext = ''.ytd'' \<or> ext = ''.rpf'' \<or> ext = ''.gfx'' then 64
                 else if str_contains fileName ''+hi'' \<or> str_contains fileName ''_hi'' then 16
                 else 32)))"

text \<open>The staging file name of \<^verbatim>\<open>EnsureFetched\<close>: \<^verbatim>\<open>find_last_of('.') + 1\<close> is 0 when
  there is no dot (\<^verbatim>\<open>npos + 1\<close> wraps), so the extension is then the whole base name.\<close>

definition outFileName_of :: "string \<Rightarrow> Entry \<Rightarrow> string" where
  "outFileName_of cachePath e =
    (let extension = (case find_last_of CHR ''.'' (basename e) of
                        None \<Rightarrow> basename e
                      | Some k \<Rightarrow> drop (k + 1) (basename e))
     in cachePath @ extension @ ''_'' @ referenceHash e)"

text \<open>The progress callback that \<^verbatim>\<open>EnsureFetched\<close> attaches to the request.\<close>

definition ProgressCallback :: "nat \<Rightarrow> size_t \<Rightarrow> size_t \<Rightarrow> state \<Rightarrow> state" where
  "ProgressCallback i downloadNow downloadTotal s =
    (let s1 = upd_handle i (\<lambda>h. h\<lparr>downloadProgress := downloadNow, downloadSize := downloadTotal\<rparr>) s;
         e = entry (m_handles s ! i)
     in if downloadTotal \<noteq> 0
        then logc (OnCacheDownloadStatus (m_pathPrefix s @ resourceName e @ ''/'' @ basename e)
                     downloadNow downloadTotal) s1
        else s1)"

text \<open>
  The completion callback that \<^verbatim>\<open>EnsureFetched\<close> hands to \<^verbatim>\<open>DoFileGetRequest\<close>, for the
  slot \<open>i\<close> and the staging file name it captured. It runs on the transport's thread.
  \<^verbatim>\<open>device->GetLength\<close> is a null reference when no device serves the staging file.
\<close>

definition DownloadCallback :: "world \<Rightarrow> nat \<Rightarrow> string \<Rightarrow> bool \<Rightarrow> size_t \<Rightarrow> state \<Rightarrow> unit result \<times> state" where
  "DownloadCallback w i outFileName res outSize0 s =
    (case (if res
           then (case vfs_GetDevice w outFileName of
                   None \<Rightarrow> None
                 | Some device \<Rightarrow> Some (dev_GetLengthPath w (calls s) device outFileName,
                                         logc (DevGetLengthPath device outFileName) s))
           else Some (outSize0, s)) of
       None \<Rightarrow> (Throw NullDeref, s)
     | Some (outSize, s0) \<Rightarrow>
        (if \<not> res \<or> outSize = 0
         then (Ret (), logc (InitSetData ''rcd:error'')
                         (upd_handle i (\<lambda>h. h\<lparr>status := StatusError, getRequest := None\<rparr>) s0))
         else
           (let e = entry (m_handles s0 ! i);
                s1 = s0\<lparr>g_downloadedSet := insert (referenceHash e) (g_downloadedSet s0)\<rparr>;
                md = [''filename'' \<mapsto> basename e, ''resource'' \<mapsto> resourceName e,
                      ''from'' \<mapsto> remoteUrl e];
                s2 = logc (CacheAddEntry outFileName md) s1;
                s3 = upd_handle i (\<lambda>h. h\<lparr>parentDevice := vfs_GetDevice w outFileName\<rparr>) s2;
                s4 = (case vfs_GetDevice w outFileName of
                        None \<Rightarrow> s3
                      | Some d \<Rightarrow> open_parent w i (bulkHandle (m_handles s3 ! i)) d outFileName s3)
            in (Ret (), upd_handle i (\<lambda>h. h\<lparr>metaData := md, status := StatusFetched,
                                            getRequest := None\<rparr>) s4))))"

text \<open>
  A blocking caller in \<^verbatim>\<open>lockVar.wait\<close> on slot \<open>i\<close>. When the transport completes the
  request meanwhile, the callback runs before the caller goes on.
\<close>

definition wait_lockVar :: "world \<Rightarrow> nat \<Rightarrow> string \<Rightarrow> state \<Rightarrow> unit result \<times> state" where
  "wait_lockVar w i outFileName s =
    (case lockVar_wait w (calls s) i of
       Never \<Rightarrow> (Blocked, s)
     | Woken \<Rightarrow> (Ret (), s)
     | Signalled res outSize \<Rightarrow> DownloadCallback w i outFileName res outSize s)"

text \<open>
  \<^verbatim>\<open>EnsureFetched\<close> on the slot \<open>i\<close>. A slot that is neither fetched nor fetching
  (also one in \<open>StatusError\<close>) starts a download. In the wait of the fetching branch the
  callback is the one of the request in flight, whose staging file name was computed
  from the same entry.
\<close>

definition EnsureFetched :: "world \<Rightarrow> nat \<Rightarrow> state \<Rightarrow> bool result \<times> state" where
  "EnsureFetched w i s =
    (let hd = m_handles s ! i
     in if status hd = StatusFetched then (Ret True, s)
        else if status hd = StatusFetching
        then (if m_blocking s
              then (case wait_lockVar w i (outFileName_of (m_cachePath s) (entry hd)) s of
                      (Ret u, s1) \<Rightarrow> (Ret False, s1)
                    | (Throw f, s1) \<Rightarrow> (Throw f, s1)
                    | (Blocked, s1) \<Rightarrow> (Blocked, s1))
              else (Ret False, s))
        else
          (let s1 = upd_handle i (\<lambda>h. h\<lparr>status := StatusFetching\<rparr>) s;
               outFileName = outFileName_of (m_cachePath s) (entry hd);
               connectionToken = init_GetData w ''connectionToken''
           in case GetWeightForFileName (basename (entry hd)) of
                Inl f \<Rightarrow> (Throw f, s1)
              | Inr weight \<Rightarrow>
                 (let rq = http_DoFileGetRequest w (calls s1) (remoteUrl (entry hd)) outFileName;
                      s2 = upd_handle i (\<lambda>h. h\<lparr>getRequest := rq\<rparr>)
                             (logc (HttpDoFileGetRequest (remoteUrl (entry hd))
                                      (vfs_GetDevice w (m_cachePath s)) outFileName weight
                                      connectionToken) s1)
                  in if m_blocking s
                     then (case wait_lockVar w i outFileName s2 of
                             (Ret u, s3) \<Rightarrow> (Ret (status (m_handles s3 ! i) = StatusFetched), s3)
                           | (Throw f, s3) \<Rightarrow> (Throw f, s3)
                           | (Blocked, s3) \<Rightarrow> (Blocked, s3))
                     else (Ret (status (m_handles s2 ! i) = StatusFetched), s2))))"

section \<open>Reading, seeking, closing\<close>

text \<open>A handle indexes \<^verbatim>\<open>m_handles\<close>; an index outside the table is undefined behaviour
  (\<open>BadHandle\<close>), and so is a call through a null \<open>parentDevice\<close> (\<open>NullDeref\<close>).\<close>

definition Read :: "world \<Rightarrow> THandle \<Rightarrow> size_t \<Rightarrow> state \<Rightarrow> size_t result \<times> state" where
  "Read w handle sz s =
    (if length (m_handles s) \<le> unat handle then (Throw BadHandle, s)
     else case EnsureFetched w (unat handle) s of
            (Ret fetched, s1) \<Rightarrow>
              (let hd = m_handles s1 ! unat handle
               in if status hd = StatusNotFetched \<or> status hd = StatusFetching then (Ret 0, s1)
                  else if status hd = StatusError then (Ret (- 1), s1)
                  else (case parentDevice hd of
                          None \<Rightarrow> (Throw NullDeref, s1)
                        | Some d \<Rightarrow> (Ret (dev_Read w (calls s1) d (parentHandle hd) sz),
                                     logc (DevRead d (parentHandle hd) sz) s1)))
          | (Throw f, s1) \<Rightarrow> (Throw f, s1)
          | (Blocked, s1) \<Rightarrow> (Blocked, s1))"

definition ReadBulk :: "world \<Rightarrow> THandle \<Rightarrow> uint64_t \<Rightarrow> size_t \<Rightarrow> state \<Rightarrow> size_t result \<times> state" where
  "ReadBulk w handle ptr sz s =
    (if length (m_handles s) \<le> unat handle then (Throw BadHandle, s)
     else case EnsureFetched w (unat handle) s of
            (Ret fetched, s1) \<Rightarrow>
              (let hd = m_handles s1 ! unat handle
               in if sz = 0xFFFFFFFE \<or> sz = 0xFFFFFFFD
                  then (Ret (if status hd = StatusFetched then 2048 else 0),
                        (case getRequest hd of
                           None \<Rightarrow> s1
                         | Some rq \<Rightarrow>
                            (let newWeight = (if sz = 0xFFFFFFFE then - 1 else 1)
                             in logc (HttpSetRequestWeight rq newWeight) s1)))
                  else if status hd = StatusNotFetched \<or> status hd = StatusFetching then (Ret 0, s1)
                  else if status hd = StatusError then (Ret (- 1), s1)
                  else (case parentDevice hd of
                          None \<Rightarrow> (Throw NullDeref, s1)
                        | Some d \<Rightarrow>
                           (Ret (dev_ReadBulk w (calls s1) d (parentHandle hd) (ptr + bulkPtr hd) sz),
                            logc (DevReadBulk d (parentHandle hd) (ptr + bulkPtr hd) sz) s1)))
          | (Throw f, s1) \<Rightarrow> (Throw f, s1)
          | (Blocked, s1) \<Rightarrow> (Blocked, s1))"

definition Seek :: "world \<Rightarrow> THandle \<Rightarrow> 64 word \<Rightarrow> int \<Rightarrow> state \<Rightarrow> size_t result \<times> state" where
  "Seek w handle offset seekType s =
    (if length (m_handles s) \<le> unat handle then (Throw BadHandle, s)
     else let hd = m_handles s ! unat handle
          in if status hd \<noteq> StatusFetched then (Ret (- 1), s)
             else (case parentDevice hd of
                     None \<Rightarrow> (Throw NullDeref, s)
                   | Some d \<Rightarrow> (Ret (dev_Seek w (calls s) d (parentHandle hd) offset seekType),
                                logc (DevSeek d (parentHandle hd) offset seekType) s)))"

definition Close :: "world \<Rightarrow> THandle \<Rightarrow> state \<Rightarrow> bool result \<times> state" where
  "Close w handle s =
    (if length (m_handles s) \<le> unat handle then (Throw BadHandle, s)
     else let hd = m_handles s ! unat handle
          in if status hd = StatusFetched
             then (case parentDevice hd of
                     None \<Rightarrow> (Throw NullDeref, s)
                   | Some d \<Rightarrow>
                      (Ret (dev_Close w (calls s) d (parentHandle hd)),
                       upd_handle (unat handle) (\<lambda>h. h\<lparr>status := StatusEmpty\<rparr>)
                         (logc (DevClose d (parentHandle hd)) s)))
             else (Ret True, upd_handle (unat handle) (\<lambda>h. h\<lparr>status := StatusEmpty\<rparr>) s))"

definition CloseBulk :: "world \<Rightarrow> THandle \<Rightarrow> state \<Rightarrow> bool result \<times> state" where
  "CloseBulk w handle s =
    (if length (m_handles s) \<le> unat handle then (Throw BadHandle, s)
     else let hd = m_handles s ! unat handle
          in if status hd = StatusFetched
             then (case parentDevice hd of
                     None \<Rightarrow> (Throw NullDeref, s)
                   | Some d \<Rightarrow>
                      (Ret (dev_CloseBulk w (calls s) d (parentHandle hd)),
                       upd_handle (unat handle) (\<lambda>h. h\<lparr>status := StatusEmpty\<rparr>)
                         (logc (DevCloseBulk d (parentHandle hd)) s)))
             else (Ret True, upd_handle (unat handle) (\<lambda>h. h\<lparr>status := StatusEmpty\<rparr>) s))"

definition GetLength :: "world \<Rightarrow> THandle \<Rightarrow> state \<Rightarrow> size_t result \<times> state" where
  "GetLength w handle s =
    (if length (m_handles s) \<le> unat handle then (Throw BadHandle, s)
     else let hd = m_handles s ! unat handle
          in if status hd = StatusFetched
             then (case parentDevice hd of
                     None \<Rightarrow> (Throw NullDeref, s)
                   | Some d \<Rightarrow> (Ret (dev_GetLength w (calls s) d (parentHandle hd)),
                                logc (DevGetLength d (parentHandle hd)) s))
             else (Ret (entry_size (entry hd)), s))"

text \<open>The overload of \<^verbatim>\<open>GetLength\<close> that takes a file name, and \<^verbatim>\<open>GetAttributes\<close>.\<close>

definition GetLength_fileName :: "world \<Rightarrow> string \<Rightarrow> state \<Rightarrow> size_t result \<times> state" where
  "GetLength_fileName w fileName s =
    (case GetEntryForFileName w s fileName of
       Inl f \<Rightarrow> (Throw f, s)
     | Inr (Some e) \<Rightarrow> (Ret (entry_size e), s)
     | Inr None \<Rightarrow> (Ret (- 1), s))"

definition GetAttributes :: "world \<Rightarrow> string \<Rightarrow> state \<Rightarrow> uint32_t result \<times> state" where
  "GetAttributes w fileName s =
    (case GetEntryForFileName w s fileName of
       Inl f \<Rightarrow> (Throw f, s)
     | Inr (Some e) \<Rightarrow> (Ret 0, s)
     | Inr None \<Rightarrow> (Ret (- 1), s))"

section \<open>The extension control\<close>

text \<open>
  The C library's \<^verbatim>\<open>atoi\<close> and \<^verbatim>\<open>strtoul\<close> in base 10: white space, an optional sign, then
  the longest run of decimal digits (0 when there is none). Out of range the Windows
  runtime this file is built for saturates: \<^verbatim>\<open>atoi\<close> at \<^verbatim>\<open>INT_MIN\<close> and \<^verbatim>\<open>INT_MAX\<close>,
  \<^verbatim>\<open>strtoul\<close> at \<^verbatim>\<open>ULONG_MAX\<close> (32 bits); a minus sign negates a value in range as
  an unsigned number.
\<close>

definition isspace :: "char \<Rightarrow> bool" where
  "isspace c = (of_char c = (32::nat) \<or> (9 \<le> (of_char c :: nat) \<and> (of_char c :: nat) \<le> 13))"

definition isdigit :: "char \<Rightarrow> bool" where
  "isdigit c = (48 \<le> (of_char c :: nat) \<and> (of_char c :: nat) \<le> 57)"

fun parse_digits :: "nat \<Rightarrow> string \<Rightarrow> nat" where
  "parse_digits acc [] = acc"
| "parse_digits acc (c # cs) =
     (if isdigit c then parse_digits (acc * 10 + (of_char c - 48)) cs else acc)"

definition atoi :: "string \<Rightarrow> int" where
  "atoi str =
    (case dropWhile isspace str of
       [] \<Rightarrow> 0
     | c # cs \<Rightarrow>
        if c = CHR ''-'' then max (- (2 ^ 31)) (- int (parse_digits 0 cs))
        else if c = CHR ''+'' then min (2 ^ 31 - 1) (int (parse_digits 0 cs))
        else min (2 ^ 31 - 1) (int (parse_digits 0 (c # cs))))"

definition strtoul :: "string \<Rightarrow> uint32_t" where
  "strtoul str =
    (case dropWhile isspace str of
       [] \<Rightarrow> 0
     | c # cs \<Rightarrow>
        (let neg = (c = CHR ''-'');
             n = parse_digits 0 (if c = CHR ''-'' \<or> c = CHR ''+'' then cs else c # cs)
         in if 2 ^ 32 - 1 < n then - 1
            else if neg then - of_nat n
            else of_nat n))"

text \<open>\<^verbatim>\<open>std::map::operator[]\<close> on the resolved copy of the entry: a missing key reads
  as the empty string.\<close>

definition map_index :: "strmap \<Rightarrow> string \<Rightarrow> string" where
  "map_index m k = (case m k of None \<Rightarrow> [] | Some v \<Rightarrow> v)"

definition VFS_GET_RAGE_PAGE_FLAGS :: int where
  "VFS_GET_RAGE_PAGE_FLAGS = 0x20001"

record ResourceFlags =
  flag1 :: uint32_t
  flag2 :: uint32_t

record GetRagePageFlagsExtension =
  fileName :: string
  version :: int
  flags :: ResourceFlags

definition ExtensionCtl ::
  "world \<Rightarrow> int \<Rightarrow> GetRagePageFlagsExtension \<Rightarrow> state
     \<Rightarrow> bool result \<times> GetRagePageFlagsExtension \<times> state" where
  "ExtensionCtl w controlIdx controlData s =
    (if controlIdx = VFS_GET_RAGE_PAGE_FLAGS
     then (case GetEntryForFileName w s (fileName controlData) of
             Inl f \<Rightarrow> (Throw f, controlData, s)
           | Inr (Some e) \<Rightarrow>
              (Ret True,
               controlData\<lparr>version := atoi (map_index (extData e) ''rscVersion''),
                            flags := (flags controlData)\<lparr>
                              flag1 := strtoul (map_index (extData e) ''rscPagesVirtual''),
                              flag2 := strtoul (map_index (extData e) ''rscPagesPhysical'')\<rparr>\<rparr>,
               s)
           | Inr None \<Rightarrow> (Ret False, controlData, s))
     else (Ret False, controlData, s))"

section \<open>Properties of states and histories\<close>

text \<open>Every fetched slot has a parent device. The slots are empty to begin with and
  every operation of the device keeps the property, so it holds in every state the
  device reaches, and a call through \<open>parentDevice\<close> on a fetched slot is not a null
  reference.\<close>

definition parent_ok :: "state \<Rightarrow> bool" where
  "parent_ok s = (\<forall>h \<in> set (m_handles s). status h = StatusFetched \<longrightarrow> parentDevice h \<noteq> None)"

text \<open>The states the device can be in: every slot empty at first, then any sequence of
  its operations and of the callbacks the transport runs (with any arguments).\<close>

inductive reachable :: "world \<Rightarrow> state \<Rightarrow> bool" for w :: world where
  r_init: "\<forall>h \<in> set (m_handles s). status h = StatusEmpty \<Longrightarrow> reachable w s"
| r_Open: "reachable w s \<Longrightarrow> reachable w (snd (Open w path ro s))"
| r_OpenBulk: "reachable w s \<Longrightarrow> reachable w (fst (snd (OpenBulk w path ptr s)))"
| r_Read: "reachable w s \<Longrightarrow> reachable w (snd (Read w handle n s))"
| r_ReadBulk: "reachable w s \<Longrightarrow> reachable w (snd (ReadBulk w handle ptr n s))"
| r_Seek: "reachable w s \<Longrightarrow> reachable w (snd (Seek w handle off t s))"
| r_GetLength: "reachable w s \<Longrightarrow> reachable w (snd (GetLength w handle s))"
| r_Close: "reachable w s \<Longrightarrow> reachable w (snd (Close w handle s))"
| r_CloseBulk: "reachable w s \<Longrightarrow> reachable w (snd (CloseBulk w handle s))"
| r_Progress: "reachable w s \<Longrightarrow> reachable w (ProgressCallback i a b s)"
| r_Download: "reachable w s \<Longrightarrow> reachable w (snd (DownloadCallback w i out res n s))"



section \<open>A concrete device\<close>

text \<open>One resource \<^verbatim>\<open>res\<close> with one file, one parent device (number 0) that serves every
  path, and an HTTP client that hands out request 1. The parameters are what a blocked
  caller experiences, what the cache answers, and what the parent's \<^verbatim>\<open>Open\<close> returns.\<close>

definition example_entry :: Entry where
  "example_entry =
    \<lparr>basename = ''file.ytd'', resourceName = ''res'', referenceHash = ''abc'',
     remoteUrl = ''http://host/file.ytd'', entry_size = 100,
     extData = [''rscVersion'' \<mapsto> ''3'', ''rscPagesVirtual'' \<mapsto> ''16'',
                ''rscPagesPhysical'' \<mapsto> ''4'']\<rparr>"

definition example_cacheEntry :: CacheEntry where
  "example_cacheEntry = \<lparr>GetLocalPath = ''rescache:/ytd_abc'', GetMetaData = Map.empty\<rparr>"

definition example_slot :: "Status \<Rightarrow> Device option \<Rightarrow> HttpRequestPtr option \<Rightarrow> HandleData" where
  "example_slot st pd rq =
    \<lparr>status = st, entry = example_entry, bulkHandle = False, parentHandle = 5,
     parentDevice = pd, bulkPtr = 16, downloadProgress = 0, downloadSize = 0,
     getRequest = rq, metaData = Map.empty\<rparr>"

definition example_world :: "wait_outcome \<Rightarrow> CacheEntry option \<Rightarrow> THandle \<Rightarrow> world" where
  "example_world wo ce oh =
    \<lparr>GetResource = (\<lambda>r. if r = ''res''
                         then Some (\<lambda>item. if item = ''file.ytd'' then Some example_entry else None)
                         else None),
     vfs_GetDevice = (\<lambda>p. Some 0),
     init_GetData = (\<lambda>k. None),
     cache_GetEntryFor = (\<lambda>cs k. ce),
     dev_Open = (\<lambda>cs d p ro. oh),
     dev_OpenBulk = (\<lambda>cs d p b. (oh, 0)),
     dev_Read = (\<lambda>cs d h n. n),
     dev_ReadBulk = (\<lambda>cs d h p n. n),
     dev_Seek = (\<lambda>cs d h off t. off),
     dev_Close = (\<lambda>cs d h. True),
     dev_CloseBulk = (\<lambda>cs d h. True),
     dev_GetLength = (\<lambda>cs d h. 100),
     dev_GetLengthPath = (\<lambda>cs d p. 100),
     http_DoFileGetRequest = (\<lambda>cs url out. Some 1),
     lockVar_wait = (\<lambda>cs i. wo)\<rparr>"

definition example_state :: "bool \<Rightarrow> HandleData list \<Rightarrow> state" where
  "example_state bl hs =
    \<lparr>m_handles = hs, m_blocking = bl, m_cachePath = ''rescache:/'', m_pathPrefix = ''cache:/'',
     g_downloadedSet = {}, calls = []\<rparr>"

section \<open>Basic facts\<close>

lemma calls_logc [simp]: "calls (logc c s) = calls s @ [c]"
  by (simp add: logc_def)

lemma m_handles_logc [simp]: "m_handles (logc c s) = m_handles s"
  by (simp add: logc_def)

lemma fields_logc [simp]:
  "m_blocking (logc c s) = m_blocking s" "m_cachePath (logc c s) = m_cachePath s"
  "m_pathPrefix (logc c s) = m_pathPrefix s" "g_downloadedSet (logc c s) = g_downloadedSet s"
  by (simp_all add: logc_def)

lemma calls_upd_handle [simp]: "calls (upd_handle i f s) = calls s"
  by (simp add: upd_handle_def)

lemma fields_upd_handle [simp]:
  "m_blocking (upd_handle i f s) = m_blocking s" "m_cachePath (upd_handle i f s) = m_cachePath s"
  "m_pathPrefix (upd_handle i f s) = m_pathPrefix s"
  "g_downloadedSet (upd_handle i f s) = g_downloadedSet s"
  by (simp_all add: upd_handle_def)

lemma length_upd_handle [simp]: "length (m_handles (upd_handle i f s)) = length (m_handles s)"
  by (simp add: upd_handle_def)

lemma nth_upd_handle_same [simp]:
  "i < length (m_handles s) \<Longrightarrow> m_handles (upd_handle i f s) ! i = f (m_handles s ! i)"
  by (simp add: upd_handle_def)

lemma nth_upd_handle_other [simp]:
  "j \<noteq> i \<Longrightarrow> m_handles (upd_handle i f s) ! j = m_handles s ! j"
  by (simp add: upd_handle_def)

subsection \<open>first_empty\<close>

lemma first_empty_bounds:
  "first_empty hs k = Some i \<Longrightarrow> k \<le> i \<and> i < k + length hs \<and> status (hs ! (i - k)) = StatusEmpty"
proof (induction hs arbitrary: k)
  case Nil
  then show ?case by simp
next
  case (Cons h hs)
  show ?case
  proof (cases "status h = StatusEmpty")
    case True
    with Cons.prems show ?thesis by simp
  next
    case False
    with Cons.prems have "first_empty hs (Suc k) = Some i" by simp
    from Cons.IH [OF this] show ?thesis
      by (simp add: nth_Cons')
  qed
qed

lemma first_empty_Some:
  "first_empty hs 0 = Some i \<Longrightarrow> i < length hs \<and> status (hs ! i) = StatusEmpty"
  using first_empty_bounds [of hs 0 i] by simp

subsection \<open>open_parent\<close>

lemma open_parent_fields [simp]:
  "length (m_handles (open_parent w i b d p s)) = length (m_handles s)"
  "m_blocking (open_parent w i b d p s) = m_blocking s"
  "m_cachePath (open_parent w i b d p s) = m_cachePath s"
  by (simp_all add: open_parent_def Let_def)

lemma open_parent_slot:
  "i < length (m_handles s) \<Longrightarrow>
     status (m_handles (open_parent w i b d p s) ! i) = status (m_handles s ! i) \<and>
     parentDevice (m_handles (open_parent w i b d p s) ! i) = parentDevice (m_handles s ! i) \<and>
     getRequest (m_handles (open_parent w i b d p s) ! i) = getRequest (m_handles s ! i) \<and>
     entry (m_handles (open_parent w i b d p s) ! i) = entry (m_handles s ! i)"
  by (simp add: open_parent_def Let_def)

lemma open_parent_calls:
  "calls (open_parent w i b d p s) = calls s @ [if b then DevOpenBulk d p else DevOpen d p True]"
  by (simp add: open_parent_def Let_def)

lemma open_parent_Open:
  "i < length (m_handles s) \<Longrightarrow>
     parentHandle (m_handles (open_parent w i False d p s) ! i) = dev_Open w (calls s) d p True"
  by (simp add: open_parent_def)

subsection \<open>parent_ok\<close>

lemma parent_ok_logc [simp]: "parent_ok (logc c s) = parent_ok s"
  by (simp add: parent_ok_def)

lemma parent_ok_nth:
  "parent_ok s \<Longrightarrow> i < length (m_handles s) \<Longrightarrow> status (m_handles s ! i) = StatusFetched \<Longrightarrow>
     \<exists>d. parentDevice (m_handles s ! i) = Some d"
  by (auto simp: parent_ok_def)

lemma parent_ok_upd_handle:
  assumes "parent_ok s"
    and "i < length (m_handles s) \<Longrightarrow> status (f (m_handles s ! i)) = StatusFetched \<Longrightarrow>
           parentDevice (f (m_handles s ! i)) \<noteq> None"
  shows "parent_ok (upd_handle i f s)"
proof (cases "i < length (m_handles s)")
  case True
  have "set ((m_handles s)[i := f (m_handles s ! i)]) \<subseteq> insert (f (m_handles s ! i)) (set (m_handles s))"
    by (rule set_update_subset_insert)
  with assms True show ?thesis
    by (auto simp: parent_ok_def upd_handle_def)
next
  case False
  with assms(1) show ?thesis
    by (simp add: parent_ok_def upd_handle_def list_update_beyond)
qed

lemma parent_ok_g [simp]: "parent_ok (s\<lparr>g_downloadedSet := X\<rparr>) = parent_ok s"
  by (simp add: parent_ok_def)

lemma parent_ok_initial: "\<forall>h \<in> set (m_handles s). status h = StatusEmpty \<Longrightarrow> parent_ok s"
  by (simp add: parent_ok_def)

lemma parent_ok_open_parent: "parent_ok s \<Longrightarrow> parent_ok (open_parent w i b d p s)"
  by (auto simp: open_parent_def Let_def intro!: parent_ok_upd_handle dest: parent_ok_nth)

lemma parent_ok_AllocateHandle: "parent_ok s \<Longrightarrow> parent_ok (snd (AllocateHandle s))"
  by (auto simp: AllocateHandle_def split: option.splits intro!: parent_ok_upd_handle)

lemma parent_ok_open_cached:
  assumes ok: "parent_ok s" and nf: "i < length (m_handles s) \<Longrightarrow> status (m_handles s ! i) \<noteq> StatusFetched"
  shows "parent_ok (open_cached w i b ce s)"
proof -
  let ?p = "GetLocalPath ce"
  let ?s1 = "upd_handle i (\<lambda>h. h\<lparr>parentDevice := vfs_GetDevice w ?p\<rparr>) s"
  have ok1: "parent_ok ?s1"
    using ok nf by (intro parent_ok_upd_handle) simp_all
  show ?thesis
  proof (cases "vfs_GetDevice w ?p")
    case None
    with ok1 show ?thesis by (simp add: open_cached_def)
  next
    case (Some d)
    let ?s2 = "open_parent w i b d ?p ?s1"
    have ok2: "parent_ok ?s2" using ok1 by (rule parent_ok_open_parent)
    have "parent_ok (upd_handle i (\<lambda>h. h\<lparr>status := StatusFetched, metaData := GetMetaData ce\<rparr>) ?s2)"
      using ok2 by (intro parent_ok_upd_handle) (simp_all add: open_parent_slot Some)
    with ok2 Some show ?thesis by (simp add: open_cached_def Let_def)
  qed
qed

lemma parent_ok_OpenInternal: "parent_ok s \<Longrightarrow> parent_ok (snd (OpenInternal w path b s))"
proof -
  assume ok: "parent_ok s"
  show ?thesis
  proof (cases "GetEntryForFileName w s path")
    case (Inl f)
    with ok show ?thesis by (simp add: OpenInternal_def)
  next
    case (Inr r)
    show ?thesis
    proof (cases r)
      case None
      with ok Inr show ?thesis by (simp add: OpenInternal_def)
    next
      case (Some e)
      show ?thesis
      proof (cases "first_empty (m_handles s) 0")
        case None
        with ok Inr Some show ?thesis by (simp add: OpenInternal_def AllocateHandle_def)
      next
        case Some2: (Some i)
        let ?s1 = "upd_handle i (\<lambda>h. h\<lparr>status := StatusError\<rparr>) s"
        let ?s2 = "upd_handle i (\<lambda>h. h\<lparr>bulkHandle := b, entry := e, status := StatusNotFetched\<rparr>) ?s1"
        let ?s3 = "logc (CacheGetEntryFor (referenceHash e)) ?s2"
        have ok3: "parent_ok ?s3"
          using ok by (auto intro!: parent_ok_upd_handle)
        have "parent_ok (open_cached w i b ce ?s3)" for ce
          using ok3 by (rule parent_ok_open_cached) simp
        with ok3 Inr Some Some2 show ?thesis
          by (simp add: OpenInternal_def AllocateHandle_def Let_def split: option.splits)
      qed
    qed
  qed
qed

lemma parent_ok_Open: "parent_ok s \<Longrightarrow> parent_ok (snd (Open w path ro s))"
  by (simp add: Open_def parent_ok_OpenInternal)

lemma parent_ok_OpenBulk: "parent_ok s \<Longrightarrow> parent_ok (fst (snd (OpenBulk w path ptr s)))"
  by (simp add: OpenBulk_def Let_def parent_ok_OpenInternal)

lemma parent_ok_DownloadCallback:
  assumes ok: "parent_ok s"
  shows "parent_ok (snd (DownloadCallback w i out res n s))"
proof (cases "res \<and> dev_GetLengthPath w (calls s) (the (vfs_GetDevice w out)) out \<noteq> 0 \<and> vfs_GetDevice w out \<noteq> None")
  case True
  then obtain d where d: "vfs_GetDevice w out = Some d" by auto
  let ?s0 = "logc (DevGetLengthPath d out) s"
  let ?e = "entry (m_handles ?s0 ! i)"
  let ?s1 = "?s0\<lparr>g_downloadedSet := insert (referenceHash ?e) (g_downloadedSet ?s0)\<rparr>"
  let ?md = "[''filename'' \<mapsto> basename ?e, ''resource'' \<mapsto> resourceName ?e, ''from'' \<mapsto> remoteUrl ?e]"
  let ?s2 = "logc (CacheAddEntry out ?md) ?s1"
  let ?s3 = "upd_handle i (\<lambda>h. h\<lparr>parentDevice := Some d\<rparr>) ?s2"
  let ?s4 = "open_parent w i (bulkHandle (m_handles ?s3 ! i)) d out ?s3"
  have "parent_ok ?s3" using ok by (intro parent_ok_upd_handle) simp_all
  then have ok4: "parent_ok ?s4" by (rule parent_ok_open_parent)
  have "parent_ok (upd_handle i (\<lambda>h. h\<lparr>metaData := ?md, status := StatusFetched, getRequest := None\<rparr>) ?s4)"
    using ok4 by (intro parent_ok_upd_handle) (simp_all add: open_parent_slot)
  with True d show ?thesis
    by (simp add: DownloadCallback_def Let_def)
next
  case False
  have "parent_ok (upd_handle i (\<lambda>h. h\<lparr>status := StatusError, getRequest := None\<rparr>) s')" if "parent_ok s'" for s'
    using that by (intro parent_ok_upd_handle) simp_all
  with False ok show ?thesis
    by (auto simp: DownloadCallback_def Let_def split: option.splits)
qed

lemma parent_ok_wait_lockVar: "parent_ok s \<Longrightarrow> parent_ok (snd (wait_lockVar w i out s))"
  by (simp add: wait_lockVar_def parent_ok_DownloadCallback split: wait_outcome.splits)

lemma parent_ok_wait_lockVarD:
  "wait_lockVar w i out s = (r, s') \<Longrightarrow> parent_ok s \<Longrightarrow> parent_ok s'"
  using parent_ok_wait_lockVar [of s w i out] by simp

lemma parent_ok_EnsureFetched:
  assumes ok: "parent_ok s"
  shows "parent_ok (snd (EnsureFetched w i s))"
proof -
  let ?s1 = "upd_handle i (\<lambda>h. h\<lparr>status := StatusFetching\<rparr>) s"
  have ok1: "parent_ok ?s1"
    using ok by (intro parent_ok_upd_handle) simp_all
  have ok2: "parent_ok (upd_handle i (\<lambda>h. h\<lparr>getRequest := rq\<rparr>) (logc c ?s1))" for rq c
    using ok1 ok by (intro parent_ok_upd_handle) (simp_all add: parent_ok_def)
  show ?thesis
    using ok ok1 ok2
    by (auto simp: EnsureFetched_def Let_def
        split: prod.splits result.splits sum.splits
        dest: parent_ok_wait_lockVarD)
qed

lemma parent_ok_EnsureFetchedD:
  "EnsureFetched w i s = (r, s') \<Longrightarrow> parent_ok s \<Longrightarrow> parent_ok s'"
  using parent_ok_EnsureFetched [of s w i] by simp

lemma parent_ok_Read: "parent_ok s \<Longrightarrow> parent_ok (snd (Read w handle n s))"
  by (auto simp: Read_def Let_def split: prod.splits result.splits option.splits
      dest: parent_ok_EnsureFetchedD)

lemma parent_ok_ReadBulk: "parent_ok s \<Longrightarrow> parent_ok (snd (ReadBulk w handle ptr n s))"
  by (auto simp: ReadBulk_def Let_def split: prod.splits result.splits option.splits
      dest: parent_ok_EnsureFetchedD)

lemma parent_ok_Seek: "parent_ok s \<Longrightarrow> parent_ok (snd (Seek w handle off t s))"
  by (auto simp: Seek_def Let_def split: option.splits)

lemma parent_ok_GetLength: "parent_ok s \<Longrightarrow> parent_ok (snd (GetLength w handle s))"
  by (auto simp: GetLength_def Let_def split: option.splits)

lemma parent_ok_Close: "parent_ok s \<Longrightarrow> parent_ok (snd (Close w handle s))"
  by (auto simp: Close_def Let_def split: option.splits intro!: parent_ok_upd_handle)

lemma parent_ok_CloseBulk: "parent_ok s \<Longrightarrow> parent_ok (snd (CloseBulk w handle s))"
  by (auto simp: CloseBulk_def Let_def split: option.splits intro!: parent_ok_upd_handle)

lemma parent_ok_ProgressCallback: "parent_ok s \<Longrightarrow> parent_ok (ProgressCallback i a b s)"
  by (auto simp: ProgressCallback_def Let_def intro!: parent_ok_upd_handle dest: parent_ok_nth)

lemma reachable_parent_ok: "reachable w s \<Longrightarrow> parent_ok s"
proof (induction rule: reachable.induct)
  case (r_init s)
  then show ?case by (rule parent_ok_initial)
qed (simp_all add: parent_ok_Open parent_ok_OpenBulk parent_ok_Read parent_ok_ReadBulk
    parent_ok_Seek parent_ok_GetLength parent_ok_Close parent_ok_CloseBulk
    parent_ok_ProgressCallback parent_ok_DownloadCallback)

subsection \<open>calls of EnsureFetched\<close>

lemma length_DownloadCallback [simp]:
  "length (m_handles (snd (DownloadCallback w i out res n s))) = length (m_handles s)"
  by (auto simp: DownloadCallback_def Let_def split: option.splits if_splits)

lemma length_wait_lockVar [simp]:
  "length (m_handles (snd (wait_lockVar w i out s))) = length (m_handles s)"
  by (simp add: wait_lockVar_def split: wait_outcome.splits)

lemma length_EnsureFetched:
  "EnsureFetched w i s = (r, s') \<Longrightarrow> length (m_handles s') = length (m_handles s)"
proof -
  have W: "wait_lockVar w i out s0 = (r0, s1) \<Longrightarrow> length (m_handles s1) = length (m_handles s0)"
    for out s0 r0 s1
    using length_wait_lockVar [of w i out s0] by simp
  show "EnsureFetched w i s = (r, s') \<Longrightarrow> length (m_handles s') = length (m_handles s)"
    by (auto simp: EnsureFetched_def Let_def split: prod.splits result.splits sum.splits if_splits
        dest!: W)
qed




subsection \<open>EnsureFetched returns\<close>

lemma EnsureFetched_Fetched:
  "status (m_handles s ! i) = StatusFetched \<Longrightarrow> EnsureFetched w i s = (Ret True, s)"
  by (simp add: EnsureFetched_def)



lemma GetWeightForFileName_no_dot:
  "find_last_of CHR ''.'' name = None \<Longrightarrow> GetWeightForFileName name = Inl StdOutOfRange"
  by (simp add: GetWeightForFileName_def)

lemma EnsureFetched_no_dot:
  assumes "status (m_handles s ! i) \<noteq> StatusFetched" and "status (m_handles s ! i) \<noteq> StatusFetching"
    and "find_last_of CHR ''.'' (basename (entry (m_handles s ! i))) = None"
  shows "EnsureFetched w i s =
           (Throw StdOutOfRange, upd_handle i (\<lambda>h. h\<lparr>status := StatusFetching\<rparr>) s)"
  using assms by (simp add: EnsureFetched_def Let_def GetWeightForFileName_no_dot)

lemma GetEntryForFileName_unknown_resource:
  assumes "length (m_pathPrefix s) \<le> length path"
    and "GetResource w (case find_first_of CHR ''/'' (drop (length (m_pathPrefix s)) path) of
                           None \<Rightarrow> drop (length (m_pathPrefix s)) path
                         | Some k \<Rightarrow> take k (drop (length (m_pathPrefix s)) path)) = None"
  shows "GetEntryForFileName w s path = Inr None"
  using assms by (simp add: GetEntryForFileName_def Let_def)

lemmas example_defs = example_entry_def example_slot_def example_world_def example_state_def

lemma ex_resolve: "GetEntryForFileName (example_world wo ce oh) (example_state bl hs)
      ''cache:/res/file.ytd'' = Inr (Some example_entry)"
  by (simp add: GetEntryForFileName_def example_world_def example_state_def)

lemma ex_weight: "GetWeightForFileName ''file.ytd'' = Inr 64"
  by (simp add: GetWeightForFileName_def find_last_of_def)

lemma ex_out: "outFileName_of ''rescache:/'' example_entry = ''rescache:/ytd_abc''"
  by (simp add: outFileName_of_def find_last_of_def example_entry_def)

lemmas run_defs = EnsureFetched_def wait_lockVar_def DownloadCallback_def open_parent_def
  upd_handle_def logc_def Let_def ex_weight [unfolded example_entry_def]
  ex_out [unfolded example_entry_def] example_defs

lemma DownloadCallback_success:
  assumes "vfs_GetDevice w out = Some d" and "dev_GetLengthPath w (calls s) d out \<noteq> 0"
    and "i < length (m_handles s)"
  shows "fst (DownloadCallback w i out True n s) = Ret () \<and>
         status (m_handles (snd (DownloadCallback w i out True n s)) ! i) = StatusFetched \<and>
         parentDevice (m_handles (snd (DownloadCallback w i out True n s)) ! i) = Some d \<and>
         parentHandle (m_handles (snd (DownloadCallback w i out True n s)) ! i) =
           (if bulkHandle (m_handles s ! i)
            then fst (dev_OpenBulk w (calls s @ [DevGetLengthPath d out,
                        CacheAddEntry out [''filename'' \<mapsto> basename (entry (m_handles s ! i)),
                          ''resource'' \<mapsto> resourceName (entry (m_handles s ! i)),
                          ''from'' \<mapsto> remoteUrl (entry (m_handles s ! i))]])
                      d out (bulkPtr (m_handles s ! i)))
            else dev_Open w (calls s @ [DevGetLengthPath d out,
                        CacheAddEntry out [''filename'' \<mapsto> basename (entry (m_handles s ! i)),
                          ''resource'' \<mapsto> resourceName (entry (m_handles s ! i)),
                          ''from'' \<mapsto> remoteUrl (entry (m_handles s ! i))]])
                      d out True)"
  using assms by (simp add: DownloadCallback_def Let_def open_parent_def)

section \<open>The claims\<close>

text \<open>
  Claim C1 says that a slot is \<open>StatusFetched\<close> exactly when its parent device and parent
  handle are valid, and in particular that after the completion callback a fetched slot
  has a parent handle other than \<open>InvalidHandle\<close>. The callback sets \<open>StatusFetched\<close>
  without looking at what the parent's \<^verbatim>\<open>Open\<close> returned: when the download succeeds and
  that \<^verbatim>\<open>Open\<close> fails, the slot is fetched with \<open>InvalidHandle\<close> as its parent handle.
  \<^verbatim>\<open>OpenInternal\<close>, given the same failing \<^verbatim>\<open>Open\<close> for a cached file, leaves its slot in
  \<open>StatusNotFetched\<close> (the last conjunct).
\<close>

theorem DownloadCallback_Fetched_InvalidHandle:
  "fst (DownloadCallback (example_world Never None InvalidHandle) 0 ''rescache:/ytd_abc'' True 0
          (example_state False [example_slot StatusFetching None (Some 1)])) = Ret () \<and>
   status (m_handles (snd (DownloadCallback (example_world Never None InvalidHandle) 0
          ''rescache:/ytd_abc'' True 0
          (example_state False [example_slot StatusFetching None (Some 1)]))) ! 0) = StatusFetched \<and>
   parentHandle (m_handles (snd (DownloadCallback (example_world Never None InvalidHandle) 0
          ''rescache:/ytd_abc'' True 0
          (example_state False [example_slot StatusFetching None (Some 1)]))) ! 0) = InvalidHandle \<and>
   status (m_handles (snd (Open (example_world Never (Some example_cacheEntry) InvalidHandle)
          ''cache:/res/file.ytd'' True
          (example_state False [example_slot StatusEmpty None None]))) ! 0) = StatusNotFetched"
  by (simp add: DownloadCallback_def open_parent_def upd_handle_def logc_def Let_def example_defs
      example_cacheEntry_def Open_def OpenInternal_def GetEntryForFileName_def AllocateHandle_def
      open_cached_def)

theorem DownloadCallback_Fetched_InvalidHandle_witness:
  "vfs_GetDevice (example_world Never None InvalidHandle) ''rescache:/ytd_abc'' = Some 0 \<and>
   dev_GetLengthPath (example_world Never None InvalidHandle) [] 0 ''rescache:/ytd_abc'' = 100 \<and>
   dev_Open (example_world Never None InvalidHandle)
     [DevGetLengthPath 0 ''rescache:/ytd_abc'',
      CacheAddEntry ''rescache:/ytd_abc''
        [''filename'' \<mapsto> ''file.ytd'', ''resource'' \<mapsto> ''res'', ''from'' \<mapsto> ''http://host/file.ytd'']]
     0 ''rescache:/ytd_abc'' True = - 1 \<and>
   status (m_handles (snd (DownloadCallback (example_world Never None InvalidHandle) 0
          ''rescache:/ytd_abc'' True 0
          (example_state False [example_slot StatusFetching None (Some 1)]))) ! 0) = StatusFetched \<and>
   parentHandle (m_handles (snd (DownloadCallback (example_world Never None InvalidHandle) 0
          ''rescache:/ytd_abc'' True 0
          (example_state False [example_slot StatusFetching None (Some 1)]))) ! 0) = - 1"
  using DownloadCallback_Fetched_InvalidHandle
  by (simp add: InvalidHandle_def example_world_def)




text \<open>
  Claim C3: once \<^verbatim>\<open>EnsureFetched\<close> has returned, \<^verbatim>\<open>Read\<close>, and \<^verbatim>\<open>ReadBulk\<close> with a size
  that is not reserved, return 0 when the slot is \<open>StatusNotFetched\<close> or \<open>StatusFetching\<close>,
  the all-ones size (\<^verbatim>\<open>-1\<close> as \<open>size_t\<close>) when it is \<open>StatusError\<close>, and what the parent
  device's read on the parent handle returns when it is \<open>StatusFetched\<close>.
\<close>

theorem Read_after_EnsureFetched:
  assumes ok: "parent_ok s"
    and h: "unat handle < length (m_handles s)"
    and E: "EnsureFetched w (unat handle) s = (Ret b, s1)"
    and sz: "sz \<noteq> 0xFFFFFFFE" "sz \<noteq> 0xFFFFFFFD"
  shows "(status (m_handles s1 ! unat handle) = StatusNotFetched \<or>
          status (m_handles s1 ! unat handle) = StatusFetching \<longrightarrow>
            Read w handle n s = (Ret 0, s1) \<and> ReadBulk w handle ptr sz s = (Ret 0, s1)) \<and>
         (status (m_handles s1 ! unat handle) = StatusError \<longrightarrow>
            Read w handle n s = (Ret (- 1), s1) \<and> ReadBulk w handle ptr sz s = (Ret (- 1), s1)) \<and>
         (status (m_handles s1 ! unat handle) = StatusFetched \<longrightarrow>
            (\<exists>d. parentDevice (m_handles s1 ! unat handle) = Some d \<and>
               Read w handle n s =
                 (Ret (dev_Read w (calls s1) d (parentHandle (m_handles s1 ! unat handle)) n),
                  logc (DevRead d (parentHandle (m_handles s1 ! unat handle)) n) s1) \<and>
               ReadBulk w handle ptr sz s =
                 (Ret (dev_ReadBulk w (calls s1) d (parentHandle (m_handles s1 ! unat handle))
                         (ptr + bulkPtr (m_handles s1 ! unat handle)) sz),
                  logc (DevReadBulk d (parentHandle (m_handles s1 ! unat handle))
                         (ptr + bulkPtr (m_handles s1 ! unat handle)) sz) s1)))"
proof -
  let ?hd = "m_handles s1 ! unat handle"
  have ok1: "parent_ok s1" using E ok by (rule parent_ok_EnsureFetchedD)
  have len: "unat handle < length (m_handles s1)" using length_EnsureFetched [OF E] h by simp
  have A: "status ?hd = StatusNotFetched \<or> status ?hd = StatusFetching \<Longrightarrow>
            Read w handle n s = (Ret 0, s1) \<and> ReadBulk w handle ptr sz s = (Ret 0, s1)"
    using h E sz by (simp add: Read_def ReadBulk_def Let_def)
  have B: "status ?hd = StatusError \<Longrightarrow>
            Read w handle n s = (Ret (- 1), s1) \<and> ReadBulk w handle ptr sz s = (Ret (- 1), s1)"
    using h E sz by (simp add: Read_def ReadBulk_def Let_def)
  have C: "\<exists>d. parentDevice ?hd = Some d \<and>
               Read w handle n s = (Ret (dev_Read w (calls s1) d (parentHandle ?hd) n),
                  logc (DevRead d (parentHandle ?hd) n) s1) \<and>
               ReadBulk w handle ptr sz s =
                 (Ret (dev_ReadBulk w (calls s1) d (parentHandle ?hd) (ptr + bulkPtr ?hd) sz),
                  logc (DevReadBulk d (parentHandle ?hd) (ptr + bulkPtr ?hd) sz) s1)"
    if f: "status ?hd = StatusFetched"
  proof -
    from parent_ok_nth [OF ok1 len f] obtain d where d: "parentDevice ?hd = Some d" ..
    with h E sz f show ?thesis by (simp add: Read_def ReadBulk_def Let_def)
  qed
  from A B C show ?thesis by blast
qed

theorem Read_after_EnsureFetched_witness:
  "Read (example_world Never None 5) 0 10 (example_state False [example_slot StatusNotFetched None None])
     = (Ret 0, snd (EnsureFetched (example_world Never None 5) 0
                     (example_state False [example_slot StatusNotFetched None None]))) \<and>
   fst (Read (example_world (Signalled False 0) None 5) 0 10
          (example_state True [example_slot StatusNotFetched None None])) = Ret (- 1) \<and>
   fst (Read (example_world Never None 5) 0 10
          (example_state False [example_slot StatusFetched (Some 0) None])) = Ret 10"
proof -
  let ?W = "example_world Never None 5"
  let ?S = "example_state False [example_slot StatusNotFetched None None]"
  let ?W2 = "example_world (Signalled False 0) None 5"
  let ?S2 = "example_state True [example_slot StatusNotFetched None None]"
  let ?S3 = "example_state False [example_slot StatusFetched (Some 0) None]"
  have ok: "parent_ok ?S" "parent_ok ?S2" "parent_ok ?S3"
    by (simp_all add: parent_ok_def example_defs)
  have h: "unat (0::64 word) < length (m_handles ?S)" "unat (0::64 word) < length (m_handles ?S2)"
    "unat (0::64 word) < length (m_handles ?S3)"
    by (simp_all add: example_defs)
  have sz: "(4::64 word) \<noteq> 0xFFFFFFFE" "(4::64 word) \<noteq> 0xFFFFFFFD" by simp_all
  have E1: "EnsureFetched ?W (unat (0::64 word)) ?S = (Ret False, snd (EnsureFetched ?W 0 ?S))"
    by (simp add: run_defs)
  have st1: "status (m_handles (snd (EnsureFetched ?W 0 ?S)) ! unat (0::64 word)) = StatusFetching"
    by (simp add: run_defs)
  have E2: "EnsureFetched ?W2 (unat (0::64 word)) ?S2 = (Ret False, snd (EnsureFetched ?W2 0 ?S2))"
    by (simp add: run_defs)
  have st2: "status (m_handles (snd (EnsureFetched ?W2 0 ?S2)) ! unat (0::64 word)) = StatusError"
    by (simp add: run_defs)
  have E3: "EnsureFetched ?W (unat (0::64 word)) ?S3 = (Ret True, ?S3)"
    by (simp add: run_defs)
  have st3: "status (m_handles ?S3 ! unat (0::64 word)) = StatusFetched"
    by (simp add: example_defs)
  have r1: "Read ?W 0 10 ?S = (Ret 0, snd (EnsureFetched ?W 0 ?S))"
    using Read_after_EnsureFetched [OF ok(1) h(1) E1 sz, of 10 0] st1 by simp
  have r2: "fst (Read ?W2 0 10 ?S2) = Ret (- 1)"
    using Read_after_EnsureFetched [OF ok(2) h(2) E2 sz, of 10 0] st2 by simp
  have r3: "fst (Read ?W 0 10 ?S3) = Ret 10"
    using Read_after_EnsureFetched [OF ok(3) h(3) E3 sz, of 10 0] st3
    by (auto simp: example_defs)
  from r1 r2 r3 show ?thesis by blast
qed

text \<open>
  Claim C4: when the cache already has the entry's hash and the local device opens the
  cached file, \<^verbatim>\<open>Open\<close> leaves the slot \<open>StatusFetched\<close>, \<^verbatim>\<open>EnsureFetched\<close> returns true
  at once without changing anything, and the first \<^verbatim>\<open>Read\<close> is a read on the parent
  device: the history of calls holds the cache lookup, the parent's \<^verbatim>\<open>Open\<close> and the
  parent's \<^verbatim>\<open>Read\<close>, and no HTTP request.
\<close>

theorem Open_cache_hit:
  assumes res: "GetEntryForFileName w s path = Inr (Some e)"
    and slot: "first_empty (m_handles s) 0 = Some i"
    and small: "length (m_handles s) < 2 ^ 64"
    and hit: "cache_GetEntryFor w (calls s) (referenceHash e) = Some ce"
    and dev: "vfs_GetDevice w (GetLocalPath ce) = Some d"
    and ph: "dev_Open w (calls s @ [CacheGetEntryFor (referenceHash e)]) d (GetLocalPath ce) True = ph"
    and valid: "ph \<noteq> InvalidHandle"
  shows "\<exists>s1. Open w path True s = (Ret (of_nat i), s1) \<and>
           status (m_handles s1 ! i) = StatusFetched \<and>
           parentDevice (m_handles s1 ! i) = Some d \<and>
           parentHandle (m_handles s1 ! i) = ph \<and>
           calls s1 = calls s @ [CacheGetEntryFor (referenceHash e), DevOpen d (GetLocalPath ce) True] \<and>
           EnsureFetched w i s1 = (Ret True, s1) \<and>
           (\<forall>n. Read w (of_nat i) n s1 = (Ret (dev_Read w (calls s1) d ph n), logc (DevRead d ph n) s1))"
proof -
  from first_empty_Some [OF slot] have i: "i < length (m_handles s)" by simp
  with small have u: "unat (of_nat i :: 64 word) = i"
    by (simp add: unat_of_nat)
  obtain s1 where O: "Open w path True s = (Ret (of_nat i), s1)"
    using res slot by (simp add: Open_def OpenInternal_def AllocateHandle_def Let_def)
  have s1: "s1 = upd_handle i (\<lambda>h. h\<lparr>status := StatusFetched, metaData := GetMetaData ce\<rparr>)
              (open_parent w i False d (GetLocalPath ce)
                (upd_handle i (\<lambda>h. h\<lparr>parentDevice := Some d\<rparr>)
                  (logc (CacheGetEntryFor (referenceHash e))
                    (upd_handle i (\<lambda>h. h\<lparr>bulkHandle := False, entry := e, status := StatusNotFetched\<rparr>)
                      (upd_handle i (\<lambda>h. h\<lparr>status := StatusError\<rparr>) s)))))"
    using O res slot hit dev ph valid i
    by (simp add: Open_def OpenInternal_def AllocateHandle_def Let_def open_cached_def open_parent_Open)
  have st: "status (m_handles s1 ! i) = StatusFetched" using i by (simp add: s1)
  have pd: "parentDevice (m_handles s1 ! i) = Some d" using i by (simp add: s1 open_parent_slot)
  have phd: "parentHandle (m_handles s1 ! i) = ph" using i ph by (simp add: s1 open_parent_Open)
  have cs: "calls s1 = calls s @ [CacheGetEntryFor (referenceHash e), DevOpen d (GetLocalPath ce) True]"
    by (simp add: s1 open_parent_calls)
  have len: "length (m_handles s1) = length (m_handles s)" by (simp add: s1)
  have E: "EnsureFetched w i s1 = (Ret True, s1)" using st by (rule EnsureFetched_Fetched)
  have R: "Read w (of_nat i) n s1 = (Ret (dev_Read w (calls s1) d ph n), logc (DevRead d ph n) s1)" for n
    using i len u E st pd phd by (simp add: Read_def Let_def)
  from O st pd phd cs E R show ?thesis by blast
qed

theorem Open_cache_hit_witness:
  "fst (Open (example_world Never (Some example_cacheEntry) 5) ''cache:/res/file.ytd'' True
          (example_state True [example_slot StatusEmpty None None])) = Ret 0 \<and>
   status (m_handles (snd (Open (example_world Never (Some example_cacheEntry) 5)
          ''cache:/res/file.ytd'' True
          (example_state True [example_slot StatusEmpty None None]))) ! 0) = StatusFetched \<and>
   calls (snd (Read (example_world Never (Some example_cacheEntry) 5) 0 10
          (snd (Open (example_world Never (Some example_cacheEntry) 5) ''cache:/res/file.ytd'' True
                  (example_state True [example_slot StatusEmpty None None]))))) =
     [CacheGetEntryFor ''abc'', DevOpen 0 ''rescache:/ytd_abc'' True, DevRead 0 5 10]"
proof -
  let ?W = "example_world Never (Some example_cacheEntry) 5"
  let ?S = "example_state True [example_slot StatusEmpty None None]"
  have res: "GetEntryForFileName ?W ?S ''cache:/res/file.ytd'' = Inr (Some example_entry)"
    by (rule ex_resolve)
  have slot: "first_empty (m_handles ?S) 0 = Some 0" by (simp add: example_defs)
  have small: "length (m_handles ?S) < 2 ^ 64" by (simp add: example_defs)
  have hit: "cache_GetEntryFor ?W (calls ?S) (referenceHash example_entry) = Some example_cacheEntry"
    by (simp add: example_defs)
  have dev: "vfs_GetDevice ?W (GetLocalPath example_cacheEntry) = Some 0"
    by (simp add: example_defs)
  have ph: "dev_Open ?W (calls ?S @ [CacheGetEntryFor (referenceHash example_entry)]) 0
              (GetLocalPath example_cacheEntry) True = 5"
    by (simp add: example_defs)
  have valid: "(5::64 word) \<noteq> InvalidHandle" by (simp add: InvalidHandle_def)
  from Open_cache_hit [OF res slot small hit dev ph valid]
  obtain s1 where "Open ?W ''cache:/res/file.ytd'' True ?S = (Ret (of_nat 0), s1)"
    "status (m_handles s1 ! 0) = StatusFetched"
    "calls s1 = calls ?S @ [CacheGetEntryFor (referenceHash example_entry),
                            DevOpen 0 (GetLocalPath example_cacheEntry) True]"
    "\<forall>n. Read ?W (of_nat 0) n s1 = (Ret (dev_Read ?W (calls s1) 0 5 n), logc (DevRead 0 5 n) s1)"
    by blast
  then show ?thesis
    by (simp add: example_entry_def example_cacheEntry_def example_state_def)
qed

text \<open>
  Claim C5: \<^verbatim>\<open>Close\<close> and \<^verbatim>\<open>CloseBulk\<close> return and leave the slot \<open>StatusEmpty\<close> whatever
  its status was; for a fetched slot they close the parent handle and return what that
  close returned, otherwise they return true and call nothing.
\<close>

theorem Close_resets_slot:
  assumes ok: "parent_ok s"
    and h: "unat handle < length (m_handles s)"
  shows "(\<exists>r s1. Close w handle s = (Ret r, s1) \<and>
            status (m_handles s1 ! unat handle) = StatusEmpty \<and>
            (if status (m_handles s ! unat handle) = StatusFetched
             then \<exists>d. parentDevice (m_handles s ! unat handle) = Some d \<and>
                    r = dev_Close w (calls s) d (parentHandle (m_handles s ! unat handle)) \<and>
                    calls s1 = calls s @ [DevClose d (parentHandle (m_handles s ! unat handle))]
             else r = True \<and> calls s1 = calls s)) \<and>
         (\<exists>r s1. CloseBulk w handle s = (Ret r, s1) \<and>
            status (m_handles s1 ! unat handle) = StatusEmpty \<and>
            (if status (m_handles s ! unat handle) = StatusFetched
             then \<exists>d. parentDevice (m_handles s ! unat handle) = Some d \<and>
                    r = dev_CloseBulk w (calls s) d (parentHandle (m_handles s ! unat handle)) \<and>
                    calls s1 = calls s @ [DevCloseBulk d (parentHandle (m_handles s ! unat handle))]
             else r = True \<and> calls s1 = calls s))"
proof (cases "status (m_handles s ! unat handle) = StatusFetched")
  case True
  from parent_ok_nth [OF ok h True] obtain d where "parentDevice (m_handles s ! unat handle) = Some d" ..
  with h True show ?thesis by (simp add: Close_def CloseBulk_def Let_def)
next
  case False
  with h show ?thesis by (auto simp: Close_def CloseBulk_def Let_def)
qed

theorem Close_resets_slot_witness:
  "fst (Close (example_world Never None 5) 0
          (example_state False [example_slot StatusFetched (Some 0) None])) = Ret True \<and>
   status (m_handles (snd (Close (example_world Never None 5) 0
          (example_state False [example_slot StatusFetched (Some 0) None]))) ! 0) = StatusEmpty \<and>
   calls (snd (Close (example_world Never None 5) 0
          (example_state False [example_slot StatusFetched (Some 0) None]))) = [DevClose 0 5] \<and>
   fst (CloseBulk (example_world Never None 5) 0
          (example_state False [example_slot StatusFetching None (Some 1)])) = Ret True \<and>
   status (m_handles (snd (CloseBulk (example_world Never None 5) 0
          (example_state False [example_slot StatusFetching None (Some 1)]))) ! 0) = StatusEmpty \<and>
   calls (snd (CloseBulk (example_world Never None 5) 0
          (example_state False [example_slot StatusFetching None (Some 1)]))) = []"
proof -
  let ?W = "example_world Never None 5"
  let ?S = "example_state False [example_slot StatusFetching None (Some 1)]"
  let ?S3 = "example_state False [example_slot StatusFetched (Some 0) None]"
  have ok: "parent_ok ?S" "parent_ok ?S3" by (simp_all add: parent_ok_def example_defs)
  have h: "unat (0::64 word) < length (m_handles ?S)" "unat (0::64 word) < length (m_handles ?S3)"
    by (simp_all add: example_defs)
  have a: "fst (Close ?W 0 ?S3) = Ret True \<and>
           status (m_handles (snd (Close ?W 0 ?S3)) ! 0) = StatusEmpty \<and>
           calls (snd (Close ?W 0 ?S3)) = [DevClose 0 5]"
    using Close_resets_slot [OF ok(2) h(2), of ?W] by (auto simp: example_defs)
  have b: "fst (CloseBulk ?W 0 ?S) = Ret True \<and>
           status (m_handles (snd (CloseBulk ?W 0 ?S)) ! 0) = StatusEmpty \<and>
           calls (snd (CloseBulk ?W 0 ?S)) = []"
    using Close_resets_slot [OF ok(1) h(1), of ?W] by (auto simp: example_defs)
  from a b show ?thesis by blast
qed

text \<open>
  Claim C6: on a fetched slot with bulk base pointer \<open>B\<close>, \<^verbatim>\<open>ReadBulk\<close> at \<open>offset\<close> with a
  size that is not reserved is the parent device's \<^verbatim>\<open>ReadBulk\<close> at \<open>B + offset\<close> with the
  same size. The sum is a \<^verbatim>\<open>uint64_t\<close>; it is the sum of the two numbers whenever that
  fits in 64 bits.
\<close>

theorem ReadBulk_offset:
  assumes ok: "parent_ok s"
    and h: "unat handle < length (m_handles s)"
    and f: "status (m_handles s ! unat handle) = StatusFetched"
    and sz: "sz \<noteq> 0xFFFFFFFE" "sz \<noteq> 0xFFFFFFFD"
  shows "\<exists>d. parentDevice (m_handles s ! unat handle) = Some d \<and>
           ReadBulk w handle offset sz s =
             (Ret (dev_ReadBulk w (calls s) d (parentHandle (m_handles s ! unat handle))
                     (bulkPtr (m_handles s ! unat handle) + offset) sz),
              logc (DevReadBulk d (parentHandle (m_handles s ! unat handle))
                     (bulkPtr (m_handles s ! unat handle) + offset) sz) s) \<and>
           (unat (bulkPtr (m_handles s ! unat handle)) + unat offset < 2 ^ 64 \<longrightarrow>
              unat (bulkPtr (m_handles s ! unat handle) + offset) =
                unat (bulkPtr (m_handles s ! unat handle)) + unat offset)"
proof -
  from parent_ok_nth [OF ok h f] obtain d where d: "parentDevice (m_handles s ! unat handle) = Some d" ..
  have "ReadBulk w handle offset sz s =
             (Ret (dev_ReadBulk w (calls s) d (parentHandle (m_handles s ! unat handle))
                     (bulkPtr (m_handles s ! unat handle) + offset) sz),
              logc (DevReadBulk d (parentHandle (m_handles s ! unat handle))
                     (bulkPtr (m_handles s ! unat handle) + offset) sz) s)"
    using h f sz d by (simp add: ReadBulk_def EnsureFetched_Fetched Let_def add.commute)
  moreover have "unat (bulkPtr (m_handles s ! unat handle)) + unat offset < 2 ^ 64 \<Longrightarrow>
              unat (bulkPtr (m_handles s ! unat handle) + offset) =
                unat (bulkPtr (m_handles s ! unat handle)) + unat offset"
    by (simp add: unat_word_ariths)
  ultimately show ?thesis using d by blast
qed

theorem ReadBulk_offset_witness:
  "ReadBulk (example_world Never None 5) 0 8 4
     (example_state False [example_slot StatusFetched (Some 0) None]) =
   (Ret 4, logc (DevReadBulk 0 5 24 4) (example_state False [example_slot StatusFetched (Some 0) None]))"
proof -
  let ?W = "example_world Never None 5"
  let ?S3 = "example_state False [example_slot StatusFetched (Some 0) None]"
  have ok: "parent_ok ?S3" by (simp add: parent_ok_def example_defs)
  have h: "unat (0::64 word) < length (m_handles ?S3)" by (simp add: example_defs)
  have f: "status (m_handles ?S3 ! unat (0::64 word)) = StatusFetched" by (simp add: example_defs)
  have sz: "(4::64 word) \<noteq> 0xFFFFFFFE" "(4::64 word) \<noteq> 0xFFFFFFFD" by simp_all
  from ReadBulk_offset [OF ok h f sz, of ?W 8]
  show ?thesis by (auto simp: example_defs)
qed

text \<open>
  Claim C7: on a slot that is not fetched \<^verbatim>\<open>Seek\<close> returns \<^verbatim>\<open>-1\<close> and \<^verbatim>\<open>GetLength\<close> the
  size field of the slot's entry, both without any call to a collaborator (the state,
  with its history of calls, is unchanged); on a fetched slot both are the parent
  device's call on the parent handle.
\<close>

theorem Seek_GetLength:
  assumes ok: "parent_ok s"
    and h: "unat handle < length (m_handles s)"
  shows "(status (m_handles s ! unat handle) \<noteq> StatusFetched \<longrightarrow>
            Seek w handle offset seekType s = (Ret (- 1), s) \<and>
            GetLength w handle s = (Ret (entry_size (entry (m_handles s ! unat handle))), s)) \<and>
         (status (m_handles s ! unat handle) = StatusFetched \<longrightarrow>
            (\<exists>d. parentDevice (m_handles s ! unat handle) = Some d \<and>
               Seek w handle offset seekType s =
                 (Ret (dev_Seek w (calls s) d (parentHandle (m_handles s ! unat handle)) offset seekType),
                  logc (DevSeek d (parentHandle (m_handles s ! unat handle)) offset seekType) s) \<and>
               GetLength w handle s =
                 (Ret (dev_GetLength w (calls s) d (parentHandle (m_handles s ! unat handle))),
                  logc (DevGetLength d (parentHandle (m_handles s ! unat handle))) s)))"
proof -
  have A: "status (m_handles s ! unat handle) \<noteq> StatusFetched \<Longrightarrow>
            Seek w handle offset seekType s = (Ret (- 1), s) \<and>
            GetLength w handle s = (Ret (entry_size (entry (m_handles s ! unat handle))), s)"
    using h by (simp add: Seek_def GetLength_def Let_def)
  have B: "\<exists>d. parentDevice (m_handles s ! unat handle) = Some d \<and>
               Seek w handle offset seekType s =
                 (Ret (dev_Seek w (calls s) d (parentHandle (m_handles s ! unat handle)) offset seekType),
                  logc (DevSeek d (parentHandle (m_handles s ! unat handle)) offset seekType) s) \<and>
               GetLength w handle s =
                 (Ret (dev_GetLength w (calls s) d (parentHandle (m_handles s ! unat handle))),
                  logc (DevGetLength d (parentHandle (m_handles s ! unat handle))) s)"
    if f: "status (m_handles s ! unat handle) = StatusFetched"
  proof -
    from parent_ok_nth [OF ok h f] obtain d where "parentDevice (m_handles s ! unat handle) = Some d" ..
    with h f show ?thesis by (simp add: Seek_def GetLength_def Let_def)
  qed
  from A B show ?thesis by blast
qed

theorem Seek_GetLength_witness:
  "Seek (example_world Never None 5) 0 12 0
     (example_state False [example_slot StatusFetching None (Some 1)]) =
     (Ret (- 1), example_state False [example_slot StatusFetching None (Some 1)]) \<and>
   GetLength (example_world Never None 5) 0
     (example_state False [example_slot StatusFetching None (Some 1)]) =
     (Ret 100, example_state False [example_slot StatusFetching None (Some 1)]) \<and>
   Seek (example_world Never None 5) 0 12 0
     (example_state False [example_slot StatusFetched (Some 0) None]) =
     (Ret 12, logc (DevSeek 0 5 12 0) (example_state False [example_slot StatusFetched (Some 0) None])) \<and>
   GetLength (example_world Never None 5) 0
     (example_state False [example_slot StatusFetched (Some 0) None]) =
     (Ret 100, logc (DevGetLength 0 5) (example_state False [example_slot StatusFetched (Some 0) None]))"
proof -
  let ?W = "example_world Never None 5"
  let ?S = "example_state False [example_slot StatusFetching None (Some 1)]"
  let ?S3 = "example_state False [example_slot StatusFetched (Some 0) None]"
  have ok: "parent_ok ?S" "parent_ok ?S3" by (simp_all add: parent_ok_def example_defs)
  have h: "unat (0::64 word) < length (m_handles ?S)" "unat (0::64 word) < length (m_handles ?S3)"
    by (simp_all add: example_defs)
  have a: "Seek ?W 0 12 0 ?S = (Ret (- 1), ?S) \<and> GetLength ?W 0 ?S = (Ret 100, ?S)"
    using Seek_GetLength [OF ok(1) h(1), of ?W 12 0] by (simp add: example_defs)
  have b: "Seek ?W 0 12 0 ?S3 = (Ret 12, logc (DevSeek 0 5 12 0) ?S3) \<and>
           GetLength ?W 0 ?S3 = (Ret 100, logc (DevGetLength 0 5) ?S3)"
    using Seek_GetLength [OF ok(2) h(2), of ?W 12 0] by (auto simp: example_defs)
  from a b show ?thesis by blast
qed

text \<open>
  Claim C8: when the file name does not resolve to an entry, \<^verbatim>\<open>Open\<close> returns
  \<open>InvalidHandle\<close> and the state is unchanged: no slot is allocated or modified and no
  call is made. That is the case in particular when the resource manager does not know
  the resource name, the part of the name between the path prefix and the first slash.
\<close>

theorem Open_unresolved:
  "(GetEntryForFileName w s path = Inr None \<longrightarrow> Open w path readOnly s = (Ret InvalidHandle, s)) \<and>
   (length (m_pathPrefix s) \<le> length path \<and>
    GetResource w (case find_first_of CHR ''/'' (drop (length (m_pathPrefix s)) path) of
                     None \<Rightarrow> drop (length (m_pathPrefix s)) path
                   | Some k \<Rightarrow> take k (drop (length (m_pathPrefix s)) path)) = None \<longrightarrow>
      Open w path readOnly s = (Ret InvalidHandle, s))"
proof -
  have A: "Open w path readOnly s = (Ret InvalidHandle, s)"
    if "GetEntryForFileName w s path = Inr None"
    using that by (simp add: Open_def OpenInternal_def)
  from A GetEntryForFileName_unknown_resource [of s path w] show ?thesis by blast
qed

theorem Open_unresolved_witness:
  "GetEntryForFileName (example_world Never None 5) (example_state False [])
      ''cache:/unknownresource/file.txt'' = Inr None \<and>
   GetResource (example_world Never None 5) ''unknownresource'' = None \<and>
   Open (example_world Never None 5) ''cache:/unknownresource/file.txt'' True (example_state False []) =
     (Ret InvalidHandle, example_state False [])"
proof -
  have r: "GetEntryForFileName (example_world Never None 5) (example_state False [])
      ''cache:/unknownresource/file.txt'' = Inr None"
    by (simp add: GetEntryForFileName_def example_defs)
  have g: "GetResource (example_world Never None 5) ''unknownresource'' = None"
    by (simp add: example_defs)
  from r g Open_unresolved [of "example_world Never None 5" "example_state False []"
      "''cache:/unknownresource/file.txt''" True]
  show ?thesis by simp
qed

text \<open>
  Claim C9: for a file name that resolves to an entry with \<^verbatim>\<open>rscVersion\<close> 3,
  \<^verbatim>\<open>rscPagesVirtual\<close> 16 and \<^verbatim>\<open>rscPagesPhysical\<close> 4, \<^verbatim>\<open>ExtensionCtl\<close> with the control
  index \<^verbatim>\<open>0x20001\<close> returns true with version 3, \<open>flag1\<close> 16 and \<open>flag2\<close> 4 and leaves
  the state unchanged; for a file name that does not resolve, and for any other control
  index, it returns false and leaves the record and the state unchanged.
\<close>

theorem ExtensionCtl_page_flags:
  "(GetEntryForFileName w s (fileName cd) = Inr (Some e) \<and>
    extData e ''rscVersion'' = Some ''3'' \<and>
    extData e ''rscPagesVirtual'' = Some ''16'' \<and>
    extData e ''rscPagesPhysical'' = Some ''4'' \<longrightarrow>
      ExtensionCtl w 0x20001 cd s =
        (Ret True, cd\<lparr>version := 3, flags := (flags cd)\<lparr>flag1 := 16, flag2 := 4\<rparr>\<rparr>, s)) \<and>
   (GetEntryForFileName w s (fileName cd) = Inr None \<longrightarrow>
      ExtensionCtl w idx cd s = (Ret False, cd, s)) \<and>
   (idx \<noteq> 0x20001 \<longrightarrow> ExtensionCtl w idx cd s = (Ret False, cd, s))"
  by (simp add: ExtensionCtl_def VFS_GET_RAGE_PAGE_FLAGS_def map_index_def atoi_def strtoul_def
      isspace_def isdigit_def)

theorem ExtensionCtl_page_flags_witness:
  "ExtensionCtl (example_world Never None 5) 0x20001
     \<lparr>fileName = ''cache:/res/file.ytd'', version = 0, flags = \<lparr>flag1 = 0, flag2 = 0\<rparr>\<rparr>
     (example_state False []) =
     (Ret True, \<lparr>fileName = ''cache:/res/file.ytd'', version = 3, flags = \<lparr>flag1 = 16, flag2 = 4\<rparr>\<rparr>,
      example_state False []) \<and>
   ExtensionCtl (example_world Never None 5) 0x20001
     \<lparr>fileName = ''cache:/unknownresource/file.txt'', version = 0, flags = \<lparr>flag1 = 0, flag2 = 0\<rparr>\<rparr>
     (example_state False []) =
     (Ret False, \<lparr>fileName = ''cache:/unknownresource/file.txt'', version = 0,
                  flags = \<lparr>flag1 = 0, flag2 = 0\<rparr>\<rparr>, example_state False []) \<and>
   ExtensionCtl (example_world Never None 5) 7
     \<lparr>fileName = ''cache:/res/file.ytd'', version = 0, flags = \<lparr>flag1 = 0, flag2 = 0\<rparr>\<rparr>
     (example_state False []) =
     (Ret False, \<lparr>fileName = ''cache:/res/file.ytd'', version = 0, flags = \<lparr>flag1 = 0, flag2 = 0\<rparr>\<rparr>,
      example_state False [])"
proof -
  let ?W = "example_world Never None 5"
  let ?S = "example_state False []"
  let ?cd = "\<lparr>fileName = ''cache:/res/file.ytd'', version = 0, flags = \<lparr>flag1 = 0, flag2 = 0\<rparr>\<rparr>"
  let ?cu = "\<lparr>fileName = ''cache:/unknownresource/file.txt'', version = 0,
              flags = \<lparr>flag1 = 0, flag2 = 0\<rparr>\<rparr>"
  have r: "GetEntryForFileName ?W ?S (fileName ?cd) = Inr (Some example_entry)"
    using ex_resolve [of Never None 5 False "[]"] by simp
  have x: "extData example_entry ''rscVersion'' = Some ''3''"
    "extData example_entry ''rscPagesVirtual'' = Some ''16''"
    "extData example_entry ''rscPagesPhysical'' = Some ''4''"
    by (simp_all add: example_entry_def)
  have u: "GetEntryForFileName ?W ?S (fileName ?cu) = Inr None"
    by (simp add: GetEntryForFileName_def example_defs)
  have n: "(7::int) \<noteq> 0x20001" by simp
  from ExtensionCtl_page_flags [of ?W ?S ?cd example_entry 7] r x n
  have a: "ExtensionCtl ?W 0x20001 ?cd ?S =
      (Ret True, ?cd\<lparr>version := 3, flags := (flags ?cd)\<lparr>flag1 := 16, flag2 := 4\<rparr>\<rparr>, ?S)"
    and c: "ExtensionCtl ?W 7 ?cd ?S = (Ret False, ?cd, ?S)"
    by blast+
  from ExtensionCtl_page_flags [of ?W ?S ?cu example_entry "0x20001"] u
  have b: "ExtensionCtl ?W 0x20001 ?cu ?S = (Ret False, ?cu, ?S)"
    by blast
  from a b c show ?thesis by simp
qed

text \<open>
  Claim C10: \<^verbatim>\<open>OpenBulk\<close> leaves 0 in the caller's cell \<^verbatim>\<open>*ptr\<close> whatever the file name
  and the old content of the cell, also when resolution fails and \<open>InvalidHandle\<close> is
  returned.
\<close>

theorem OpenBulk_ptr_zero:
  "snd (snd (OpenBulk w path ptr s)) = 0 \<and>
   (GetEntryForFileName w s path = Inr None \<longrightarrow> OpenBulk w path ptr s = (Ret InvalidHandle, s, 0))"
proof -
  have "snd (snd (OpenBulk w path ptr s)) = 0"
    by (simp add: OpenBulk_def Let_def)
  moreover have "GetEntryForFileName w s path = Inr None \<Longrightarrow>
      OpenBulk w path ptr s = (Ret InvalidHandle, s, 0)"
    by (simp add: OpenBulk_def Let_def OpenInternal_def)
  ultimately show ?thesis by blast
qed

theorem OpenBulk_ptr_zero_witness:
  "GetEntryForFileName (example_world Never None 5) (example_state False [])
      ''cache:/unknownresource/file.txt'' = Inr None \<and>
   OpenBulk (example_world Never None 5) ''cache:/unknownresource/file.txt'' 77 (example_state False []) =
     (Ret InvalidHandle, example_state False [], 0)"
proof -
  have r: "GetEntryForFileName (example_world Never None 5) (example_state False [])
      ''cache:/unknownresource/file.txt'' = Inr None"
    by (simp add: GetEntryForFileName_def example_defs)
  with OpenBulk_ptr_zero [of "example_world Never None 5" "''cache:/unknownresource/file.txt''" 77
      "example_state False []"]
  show ?thesis by simp
qed

end
